theory Spec2Isabelle
  imports Main "HOL-Library.Multiset"
begin

section \<open>Python string and dictionary primitives used by HiveToVW.py\<close>

abbreviation nl :: string where "nl \<equiv> [CHR 0x0A]"





text \<open>
  \<^verbatim>\<open>s.split(sep)\<close> for a non-empty separator: the pieces between the non-overlapping
  occurrences of \<open>sep\<close>, found left to right. \<open>cur\<close> is the piece being read. (Python raises
  ValueError for an empty separator; the source only splits on the literals \<^verbatim>\<open>'__'\<close> and
  \<^verbatim>\<open>'.'\<close>, and for an empty separator this function returns the string unsplit.)
\<close>

function split_from :: "string \<Rightarrow> string \<Rightarrow> string \<Rightarrow> string list" where
  "split_from sep cur [] = [cur]"
| "split_from sep cur (c # cs) =
     (if sep \<noteq> [] \<and> take (length sep) (c # cs) = sep
      then cur # split_from sep [] (drop (length sep) (c # cs))
      else split_from sep (cur @ [c]) cs)"
  by pat_completeness auto
termination
  by (relation "measure (\<lambda>(sep, cur, s). length s)") auto

definition split_str :: "string \<Rightarrow> string \<Rightarrow> string list" where
  "split_str sep s = split_from sep [] s"

text \<open>
  A Python dict whose keys are strings, as an association list with one entry per key.
  \<open>dict_get m k d\<close> is \<^verbatim>\<open>m.get(k, d)\<close>; \<open>dict_set k v m\<close> is \<^verbatim>\<open>m[k] = v\<close>: it replaces the
  entry of \<open>k\<close> or adds one.
\<close>

type_synonym 'v dict = "(string \<times> 'v) list"

definition dict_get :: "'v dict \<Rightarrow> string \<Rightarrow> 'v \<Rightarrow> 'v" where
  "dict_get m k d = (case map_of m k of None \<Rightarrow> d | Some v \<Rightarrow> v)"

fun dict_set :: "string \<Rightarrow> 'v \<Rightarrow> 'v dict \<Rightarrow> 'v dict" where
  "dict_set k v [] = [(k, v)]"
| "dict_set k v ((k', v') # ps) = (if k' = k then (k, v) # ps else (k', v') # dict_set k v ps)"

section \<open>The job object and the grouping of columns into namespaces\<close>

text \<open>
  One entry of the schema list that \<^verbatim>\<open>HiveMetastoreHook.get_table_schema\<close> returns: a dict
  with the keys \<^verbatim>\<open>'name'\<close>, \<^verbatim>\<open>'type'\<close> and \<^verbatim>\<open>'comment'\<close>.
\<close>

record hive_col =
  col_name :: string
  col_type :: string
  col_comment :: string

text \<open>A namespace map: namespace name to the list of \<^verbatim>\<open>(cname, ctype)\<close> tuples.\<close>

type_synonym nsmap = "(string \<times> string) list dict"

text \<open>
  A \<^verbatim>\<open>HiveCliHook\<close> object: \<^verbatim>\<open>__init__\<close> stores \<^verbatim>\<open>hive_cli_params or ''\<close>. (Its attribute
  \<^verbatim>\<open>sp\<close>, which \<^verbatim>\<open>run_cli\<close> assigns, is part of the observable state below.)
\<close>

record cli_hook =
  hive_cli_params :: string

definition HiveCliHook :: "string option \<Rightarrow> cli_hook" where
  "HiveCliHook params = \<lparr>hive_cli_params = (case params of None \<Rightarrow> [] | Some p \<Rightarrow> p)\<rparr>"

text \<open>The fields of a \<^verbatim>\<open>HiveToVWInput\<close> object, as \<^verbatim>\<open>__init__\<close> sets them.\<close>

record job =
  src_db :: string
  src_table_name :: string
  dst_db :: string
  dst_table_name :: string
  src_table :: string
  dst_table :: string
  filter_sql :: "string option"
  excludes :: "string list"
  label_column :: string
  limit :: "int option"
  tag_column :: string
  custom_namespaces :: "string \<rightharpoonup> string"
  hive_conn :: cli_hook
  nsgroups :: nsmap

text \<open>
  The body of the loop of \<^verbatim>\<open>get_ns_groups\<close>, one column at a time. In the first branch the
  source evaluates the name \<^verbatim>\<open>next\<close> and does nothing; the \<^verbatim>\<open>elif\<close> chain is skipped.
\<close>

definition ns_step :: "job \<Rightarrow> nsmap \<Rightarrow> hive_col \<Rightarrow> nsmap" where
  "ns_step self groups c =
     (let cname = col_name c; ctype = col_type c in
      if cname \<in> set (excludes self @ [label_column self, tag_column self]) then groups
      else (case custom_namespaces self cname of
        Some ns \<Rightarrow> dict_set ns (dict_get groups ns [] @ [(cname, ctype)]) groups
      | None \<Rightarrow>
        if length (split_str ''__'' cname) > 2
        then (let ns = split_str ''__'' cname ! 1 in
              dict_set ns (dict_get groups ns [] @ [(cname, ctype)]) groups)
        else dict_set ''other'' (dict_get groups ''other'' [] @ [(cname, ctype)]) groups))"

definition ns_loop :: "job \<Rightarrow> hive_col list \<Rightarrow> nsmap" where
  "ns_loop self cols = foldl (ns_step self) [] cols"

text \<open>The columns the first branch leaves out.\<close>

definition omitted :: "job \<Rightarrow> string \<Rightarrow> bool" where
  "omitted self cname \<longleftrightarrow> cname = label_column self \<or> cname = tag_column self \<or> cname \<in> set (excludes self)"

text \<open>
  The namespace rule in the words of the specification (rules 2 to 4 of its
  NamespaceAssignmentRule): an override wins, then the naming convention, then \<^verbatim>\<open>"other"\<close>.
\<close>

definition spec_namespace :: "(string \<rightharpoonup> string) \<Rightarrow> string \<Rightarrow> string" where
  "spec_namespace custom cname =
     (case custom cname of
        Some ns \<Rightarrow> ns
      | None \<Rightarrow> if length (split_str ''__'' cname) > 2 then split_str ''__'' cname ! 1 else ''other'')"

definition col_pair :: "hive_col \<Rightarrow> string \<times> string" where
  "col_pair c = (col_name c, col_type c)"

section \<open>Exceptions, the collaborators and the observable state\<close>

text \<open>
  The exceptions the code can raise. \<^verbatim>\<open>NotImplementedError\<close> is raised bare, with no
  arguments, so its value carries nothing. \<open>ThriftError\<close> stands for whatever the metastore
  client raises.
\<close>

datatype exn =
    NotImplementedError
  | TypeError string
  | NameError string
  | UnboundLocalError string
  | OSError
  | IOError
  | ThriftError string

datatype level = INFO | ERROR

text \<open>A finished subprocess: everything it wrote to its combined output, and its exit code.\<close>

record proc =
  sp_stdout :: string
  returncode :: int

text \<open>
  What a run can observe or change outside the object: the files under \<^verbatim>\<open>/tmp/\<close> (name to
  content), the calls of \<^verbatim>\<open>logging.info\<close> and \<^verbatim>\<open>logging.error\<close> in order, the subprocesses
  spawned in order (argument list, and the content of the query file at that moment), the
  attribute \<^verbatim>\<open>sp\<close> of the \<^verbatim>\<open>HiveCliHook\<close> object (the last process spawned), and the location
  lookups sent to the metastore in order.
\<close>

record world =
  files :: "string \<rightharpoonup> string"
  logs :: "(level \<times> string) list"
  procs :: "(string list \<times> string) list"
  hook_sp :: "proc option"
  lookups :: "(string \<times> string) list"

text \<open>
  The collaborators, which are not code of this repository. \<open>get_table_schema\<close> and
  \<open>get_table_location\<close> are the metastore (table name, database). \<open>iteritems\<close> is the order
  in which the Python runtime iterates over a namespace dict. \<open>mktemp\<close> is the name
  \<^verbatim>\<open>NamedTemporaryFile\<close> creates (or \<open>None\<close> when it cannot), \<open>fwrite\<close> tells whether text can
  be written and flushed to it. \<open>popen\<close> is \<^verbatim>\<open>subprocess.Popen\<close> followed by the process's whole
  life: \<open>None\<close> when the process cannot be spawned, else its output and exit code, which
  depend on the argument list and on the content of the query file. A subprocess that never
  exits has no value here: the source then never returns from its read loop.
\<close>

record env =
  get_table_schema :: "string \<Rightarrow> string \<Rightarrow> exn + hive_col list"
  get_table_location :: "string \<Rightarrow> string \<Rightarrow> exn + string"
  iteritems :: "nsmap \<Rightarrow> nsmap"
  mktemp :: "world \<Rightarrow> string option"
  fwrite :: "string \<Rightarrow> bool"
  popen :: "string list \<Rightarrow> string \<Rightarrow> proc option"


text \<open>\<^verbatim>\<open>get_ns_groups\<close>: fetch the schema (which may raise), then run the loop.\<close>

definition get_ns_groups :: "env \<Rightarrow> job \<Rightarrow> string \<Rightarrow> string \<Rightarrow> exn + nsmap" where
  "get_ns_groups E self table_name db =
     (case get_table_schema E table_name db of
        Inl e \<Rightarrow> Inl e
      | Inr cols \<Rightarrow> Inr (ns_loop self cols))"



section \<open>Generating the query text\<close>










section \<open>What the generated column expressions compute\<close>
















section \<open>Running a query: HiveCliHook\<close>













section \<open>The pipeline\<close>



section \<open>Concrete inputs\<close>

text \<open>
  The table of the specification's example: \<^verbatim>\<open>sales.orders\<close> with the label
  \<^verbatim>\<open>converted\<close> and the tag \<^verbatim>\<open>order_id\<close>. In \<open>ex_env\<close> the runtime iterates in insertion
  order, the temporary file is \<^verbatim>\<open>/tmp/tmpq1\<close>, and every subprocess prints \<^verbatim>\<open>OK\<close> and exits
  with code 0; \<open>ex_env_exit\<close> changes the output and the exit code of every subprocess.
\<close>

definition ex_cols :: "hive_col list" where
  "ex_cols =
     [\<lparr>col_name = ''amount'', col_type = ''double'', col_comment = []\<rparr>,
      \<lparr>col_name = ''is_rush'', col_type = ''boolean'', col_comment = []\<rparr>,
      \<lparr>col_name = ''region__geo__code'', col_type = ''string'', col_comment = []\<rparr>,
      \<lparr>col_name = ''converted'', col_type = ''int'', col_comment = []\<rparr>,
      \<lparr>col_name = ''order_id'', col_type = ''string'', col_comment = []\<rparr>]"

definition ex_env :: env where
  "ex_env =
     \<lparr>get_table_schema = (\<lambda>t d. if t = ''orders'' \<and> d = ''sales'' then Inr ex_cols
                                 else Inl (ThriftError ''NoSuchObjectException'')),
      get_table_location = (\<lambda>t d. Inr ''hdfs://warehouse/tmp.db/vw_data''),
      iteritems = (\<lambda>m. m),
      mktemp = (\<lambda>w. Some ''/tmp/tmpq1''),
      fwrite = (\<lambda>s. True),
      popen = (\<lambda>cmd hql. Some \<lparr>sp_stdout = ''OK'' @ nl, returncode = 0\<rparr>)\<rparr>"


definition ex_job :: job where
  "ex_job =
     \<lparr>src_db = ''sales'', src_table_name = ''orders'', dst_db = ''tmp'',
      dst_table_name = ''vw_data'', src_table = ''sales.orders'', dst_table = ''vw_data'',
      filter_sql = None, excludes = [], label_column = ''converted'', limit = None,
      tag_column = ''order_id'', custom_namespaces = Map.empty, hive_conn = HiveCliHook None,
      nsgroups = [(''other'', [(''amount'', ''double''), (''is_rush'', ''boolean'')]),
                  (''geo'', [(''region__geo__code'', ''string'')])]\<rparr>"


text \<open>
  A job that excludes the column \<^verbatim>\<open>a__b__c\<close> and also gives it a custom namespace, and a
  job whose namespace map holds a column of a struct type.
\<close>

definition excl_job :: job where
  "excl_job = ex_job\<lparr>excludes := [''a__b__c''], custom_namespaces := [''a__b__c'' \<mapsto> ''x''],
                     nsgroups := []\<rparr>"

definition excl_env :: env where
  "excl_env = ex_env\<lparr>get_table_schema :=
     (\<lambda>t d. Inr [\<lparr>col_name = ''a__b__c'', col_type = ''int'', col_comment = []\<rparr>])\<rparr>"


text \<open>
  A job that gives the column \<^verbatim>\<open>region__geo__code\<close>, whose name follows the naming
  convention, the custom namespace \<^verbatim>\<open>place\<close>.
\<close>

definition override_job :: job where
  "override_job = ex_job\<lparr>custom_namespaces := [''region__geo__code'' \<mapsto> ''place'']\<rparr>"



section \<open>Properties of the dictionary operations\<close>

lemma dict_get_Nil: "dict_get [] k d = d"
  by (simp add: dict_get_def)

lemma dict_get_set: "dict_get (dict_set k v m) k' d = (if k' = k then v else dict_get m k' d)"
  by (induction m) (auto simp: dict_get_def)

lemma keys_dict_set:
  "map fst (dict_set k v m) = (if map_of m k = None then map fst m @ [k] else map fst m)"
  by (induction m) auto

lemma distinct_dict_set: "distinct (map fst m) \<Longrightarrow> distinct (map fst (dict_set k v m))"
  by (simp add: keys_dict_set map_of_eq_None_iff)

lemma mset_dict_set:
  "mset (concat (map snd (dict_set k (dict_get m k d @ [x]) m))) =
     add_mset x (mset (concat (map snd m))) + (if map_of m k = None then mset d else {#})"
  by (induction m) (auto simp: dict_get_def)

lemma mset_dict_append:
  "mset (concat (map snd (dict_set k (dict_get m k [] @ [x]) m))) =
     add_mset x (mset (concat (map snd m)))"
  using mset_dict_set [of k m "[]" x] by simp

section \<open>The grouping: every column once, in the namespace the precedence gives\<close>

text \<open>
  The three assigning branches of the loop body differ only in the namespace, and the
  namespace they choose is the one the specification's rule gives.
\<close>

lemma ns_step_eq:
  "ns_step self groups c =
    (if omitted self (col_name c) then groups
     else dict_set (spec_namespace (custom_namespaces self) (col_name c))
            (dict_get groups (spec_namespace (custom_namespaces self) (col_name c)) []
             @ [col_pair c]) groups)"
  by (auto simp add: ns_step_def omitted_def spec_namespace_def col_pair_def Let_def
      split: option.splits)

lemma foldl_ns_step_get:
  "dict_get (foldl (ns_step self) m cols) ns [] =
     dict_get m ns [] @
     map col_pair (filter (\<lambda>c. \<not> omitted self (col_name c)
                        \<and> spec_namespace (custom_namespaces self) (col_name c) = ns) cols)"
  by (induction cols arbitrary: m) (auto simp: ns_step_eq dict_get_set)

lemma foldl_ns_step_distinct:
  "distinct (map fst m) \<Longrightarrow> distinct (map fst (foldl (ns_step self) m cols))"
  by (induction cols arbitrary: m) (auto simp: ns_step_eq distinct_dict_set)

lemma foldl_ns_step_mset:
  "mset (concat (map snd (foldl (ns_step self) m cols))) =
     mset (concat (map snd m))
     + mset (map col_pair (filter (\<lambda>c. \<not> omitted self (col_name c)) cols))"
  by (induction cols arbitrary: m) (auto simp: ns_step_eq mset_dict_append)

text \<open>
  The list of a namespace after the loop: the columns that are not omitted and belong to
  it, in the order of the schema.
\<close>

lemma ns_loop_get:
  "dict_get (ns_loop self cols) ns [] =
     map col_pair (filter (\<lambda>c. \<not> omitted self (col_name c)
                        \<and> spec_namespace (custom_namespaces self) (col_name c) = ns) cols)"
  by (simp add: ns_loop_def foldl_ns_step_get dict_get_Nil)

lemma ns_loop_member:
  "p \<in> set (dict_get (ns_loop self cols) ns []) \<longleftrightarrow>
     (\<exists>c \<in> set cols. col_pair c = p \<and> \<not> omitted self (fst p)
        \<and> spec_namespace (custom_namespaces self) (fst p) = ns)"
  by (auto simp: ns_loop_get col_pair_def)

text \<open>
  Claim C1. Whatever schema the metastore returns and whatever the job, the namespace map
  that \<^verbatim>\<open>get_ns_groups\<close> returns has one entry per namespace; its lists together hold exactly
  the columns of the schema that are not the label, the tag or excluded, each as often as
  the schema has it (so none is duplicated and none is dropped); a column that is the label,
  the tag or excluded is in no namespace, and every other column is in exactly one.
\<close>

theorem get_ns_groups_partition:
  assumes "get_table_schema E table_name db = Inr cols"
  shows "\<exists>m. get_ns_groups E self table_name db = Inr m
           \<and> distinct (map fst m)
           \<and> mset (concat (map snd m)) =
               mset (map col_pair (filter (\<lambda>c. \<not> omitted self (col_name c)) cols))
           \<and> (\<forall>c \<in> set cols.
                 if omitted self (col_name c)
                 then \<forall>ns. col_name c \<notin> fst ` set (dict_get m ns [])
                 else \<exists>!ns. col_pair c \<in> set (dict_get m ns []))"
proof -
  let ?m = "ns_loop self cols"
  have 1: "get_ns_groups E self table_name db = Inr ?m"
    using assms by (simp add: get_ns_groups_def)
  have 2: "distinct (map fst ?m)"
    unfolding ns_loop_def by (rule foldl_ns_step_distinct) simp
  have 3: "mset (concat (map snd ?m)) =
             mset (map col_pair (filter (\<lambda>c. \<not> omitted self (col_name c)) cols))"
    by (simp add: ns_loop_def foldl_ns_step_mset)
  have 4: "\<forall>ns. col_name c \<notin> fst ` set (dict_get ?m ns [])"
    if "omitted self (col_name c)" for c
    using that by (auto simp: ns_loop_member)
  have 5: "\<exists>!ns. col_pair c \<in> set (dict_get ?m ns [])"
    if "c \<in> set cols" "\<not> omitted self (col_name c)" for c
  proof
    show "col_pair c \<in> set (dict_get ?m (spec_namespace (custom_namespaces self) (col_name c)) [])"
      using that by (auto simp: ns_loop_member col_pair_def)
  next
    fix ns
    assume "col_pair c \<in> set (dict_get ?m ns [])"
    then show "ns = spec_namespace (custom_namespaces self) (col_name c)"
      by (auto simp: ns_loop_member col_pair_def)
  qed
  from 1 2 3 4 5 show ?thesis by auto
qed

text \<open>
  The theorem at the example table: the schema is returned, and the map is the one the
  specification's scenario names.
\<close>

theorem get_ns_groups_partition_witness:
  "get_table_schema ex_env ''orders'' ''sales'' = Inr ex_cols
   \<and> get_ns_groups ex_env ex_job ''orders'' ''sales'' = Inr (nsgroups ex_job)
   \<and> (\<exists>m. get_ns_groups ex_env ex_job ''orders'' ''sales'' = Inr m
           \<and> distinct (map fst m)
           \<and> mset (concat (map snd m)) =
               mset (map col_pair (filter (\<lambda>c. \<not> omitted ex_job (col_name c)) ex_cols))
           \<and> (\<forall>c \<in> set ex_cols.
                 if omitted ex_job (col_name c)
                 then \<forall>ns. col_name c \<notin> fst ` set (dict_get m ns [])
                 else \<exists>!ns. col_pair c \<in> set (dict_get m ns [])))"
proof -
  have h: "get_table_schema ex_env ''orders'' ''sales'' = Inr ex_cols"
    by (simp add: ex_env_def)
  have v: "get_ns_groups ex_env ex_job ''orders'' ''sales'' = Inr (nsgroups ex_job)"
    by (simp add: get_ns_groups_def h ns_loop_def ex_cols_def ns_step_def ex_job_def
        split_str_def dict_get_def HiveCliHook_def)
  from h v get_ns_groups_partition [OF h, of ex_job] show ?thesis by blast
qed

text \<open>
  Claim C4. The namespace of a column follows a fixed precedence, in the order of the
  \<^verbatim>\<open>if\<close>/\<^verbatim>\<open>elif\<close> chain. For every column of the schema, the lists of the returned map hold
  it exactly as follows: a column that is the label, the tag or excluded is in no list;
  any other column is in the list of one namespace only, which is the override's namespace
  when the override mapping has the column (whether or not its name follows the naming
  convention: the override wins), else the second component of the name split on \<^verbatim>\<open>__\<close> when
  the split has more than two parts, else \<^verbatim>\<open>other\<close>.
\<close>

theorem namespace_precedence:
  assumes "get_table_schema E table_name db = Inr cols" and "c \<in> set cols"
  shows "\<exists>m. get_ns_groups E self table_name db = Inr m \<and>
           (\<forall>ns. col_pair c \<in> set (dict_get m ns []) \<longleftrightarrow>
                   \<not> omitted self (col_name c) \<and>
                   ns = (case custom_namespaces self (col_name c) of
                           Some override \<Rightarrow> override
                         | None \<Rightarrow>
                             if length (split_str ''__'' (col_name c)) > 2
                             then split_str ''__'' (col_name c) ! 1
                             else ''other''))"
proof -
  have "get_ns_groups E self table_name db = Inr (ns_loop self cols)"
    using assms(1) by (simp add: get_ns_groups_def)
  moreover have "col_pair c \<in> set (dict_get (ns_loop self cols) ns []) \<longleftrightarrow>
      \<not> omitted self (col_name c) \<and>
      ns = spec_namespace (custom_namespaces self) (col_name c)" for ns
    using assms(2) by (auto simp: ns_loop_member col_pair_def)
  ultimately show ?thesis
    by (simp add: spec_namespace_def)
qed

text \<open>
  The theorem at four columns. With the override \<^verbatim>\<open>region__geo__code\<close> to \<^verbatim>\<open>place\<close>, the
  column, whose name also follows the naming convention, is in \<^verbatim>\<open>place\<close> only; without the
  override it is in \<^verbatim>\<open>geo\<close> only; \<^verbatim>\<open>amount\<close> is in \<^verbatim>\<open>other\<close> only; and the excluded column
  \<^verbatim>\<open>a__b__c\<close>, which has an override and follows the naming convention, is in no namespace.
\<close>

theorem namespace_precedence_witness:
  "custom_namespaces override_job ''region__geo__code'' = Some ''place''
   \<and> length (split_str ''__'' ''region__geo__code'') > 2
   \<and> (\<exists>m. get_ns_groups ex_env override_job ''orders'' ''sales'' = Inr m \<and>
        (\<forall>ns. (''region__geo__code'', ''string'') \<in> set (dict_get m ns []) \<longleftrightarrow> ns = ''place''))
   \<and> (\<exists>m. get_ns_groups ex_env ex_job ''orders'' ''sales'' = Inr m \<and>
        (\<forall>ns. (''region__geo__code'', ''string'') \<in> set (dict_get m ns []) \<longleftrightarrow> ns = ''geo''))
   \<and> (\<exists>m. get_ns_groups ex_env ex_job ''orders'' ''sales'' = Inr m \<and>
        (\<forall>ns. (''amount'', ''double'') \<in> set (dict_get m ns []) \<longleftrightarrow> ns = ''other''))
   \<and> custom_namespaces excl_job ''a__b__c'' = Some ''x''
   \<and> (\<exists>m. get_ns_groups excl_env excl_job ''orders'' ''sales'' = Inr m \<and>
        (\<forall>ns. (''a__b__c'', ''int'') \<notin> set (dict_get m ns [])))"
proof -
  let ?r = "\<lparr>col_name = ''region__geo__code'', col_type = ''string'', col_comment = []\<rparr>"
  let ?a = "\<lparr>col_name = ''amount'', col_type = ''double'', col_comment = []\<rparr>"
  let ?x = "\<lparr>col_name = ''a__b__c'', col_type = ''int'', col_comment = []\<rparr>"
  have h: "get_table_schema ex_env ''orders'' ''sales'' = Inr ex_cols"
    by (simp add: ex_env_def)
  have hx: "get_table_schema excl_env ''orders'' ''sales'' = Inr [?x]"
    by (simp add: excl_env_def)
  have r: "?r \<in> set ex_cols" and a: "?a \<in> set ex_cols"
    by (simp_all add: ex_cols_def)
  have x: "?x \<in> set [?x]"
    by simp
  have l: "length (split_str ''__'' ''region__geo__code'') > 2"
    and g: "split_str ''__'' ''region__geo__code'' ! 1 = ''geo''"
    and n: "\<not> length (split_str ''__'' ''amount'') > 2"
    by (simp_all add: split_str_def)
  have 1: "\<exists>m. get_ns_groups ex_env override_job ''orders'' ''sales'' = Inr m \<and>
        (\<forall>ns. (''region__geo__code'', ''string'') \<in> set (dict_get m ns []) \<longleftrightarrow> ns = ''place'')"
    using namespace_precedence [OF h r, of override_job]
    by (simp add: col_pair_def omitted_def override_job_def ex_job_def)
  have 2: "\<exists>m. get_ns_groups ex_env ex_job ''orders'' ''sales'' = Inr m \<and>
        (\<forall>ns. (''region__geo__code'', ''string'') \<in> set (dict_get m ns []) \<longleftrightarrow> ns = ''geo'')"
    using namespace_precedence [OF h r, of ex_job] l g
    by (simp add: col_pair_def omitted_def ex_job_def)
  have 3: "\<exists>m. get_ns_groups ex_env ex_job ''orders'' ''sales'' = Inr m \<and>
        (\<forall>ns. (''amount'', ''double'') \<in> set (dict_get m ns []) \<longleftrightarrow> ns = ''other'')"
    using namespace_precedence [OF h a, of ex_job] n
    by (simp add: col_pair_def omitted_def ex_job_def)
  have 4: "\<exists>m. get_ns_groups excl_env excl_job ''orders'' ''sales'' = Inr m \<and>
        (\<forall>ns. (''a__b__c'', ''int'') \<notin> set (dict_get m ns []))"
    using namespace_precedence [OF hx x, of excl_job]
    by (simp add: col_pair_def omitted_def excl_job_def ex_job_def)
  have 5: "custom_namespaces override_job ''region__geo__code'' = Some ''place''"
    by (simp add: override_job_def)
  have 6: "custom_namespaces excl_job ''a__b__c'' = Some ''x''"
    by (simp add: excl_job_def)
  from 1 2 3 4 5 6 l show ?thesis by blast
qed

section \<open>The column templates: their text and the tokens they yield\<close>














section \<open>The text template: stripping the denylist\<close>









section \<open>The text of the extraction and materialization queries\<close>












section \<open>Running a query: what \<^verbatim>\<open>run_cli\<close> returns and leaves behind\<close>












section \<open>The pipeline: which stages a run attempts\<close>











section \<open>A column type without a template\<close>











section \<open>A run stage by stage\<close>





end
